theory Spec2Isabelle
  imports Complex_Main "HOL-Library.AList"
begin

section \<open>Conventions of the embedding\<close>

text \<open>
  The program is a Python service (MacroMind backend). Its numbers are Python floats; the
  embedding reads them as real numbers, so every comparison against a threshold and every
  arithmetic step is exact. A Python \<open>dict\<close> keeps its insertion order, and one loop of the
  program iterates over it, so a dict is an association list: \<open>map_of d k\<close> is
  \<open>d.get(k)\<close>, \<open>map_of d k \<noteq> None\<close> is \<open>k in d\<close>, \<open>AList.update k v d\<close> is
  \<open>d[k] = v\<close> (in place when the key is there, appended otherwise) and the list itself is
  \<open>d.items()\<close>.

  An f-string that interpolates a float is kept as the list of its pieces, the float
  unformatted: the text a caller sees is that list with every number rendered by Python's
  \<open>str\<close>. Two equal piece lists render to the same text.

  \<open>datetime.now().isoformat()\<close> is the one read of the outside world in the analysis
  code; the string it returns is an explicit argument \<open>now\<close> of each function that
  reads the clock. The methods of \<open>EconomicIntelligenceAgent\<close> never read or write the
  attributes \<open>last_analysis\<close> and \<open>alerts\<close> of \<open>self\<close>, so \<open>self\<close> is not an argument.
\<close>

type_synonym 'v dict = "(string \<times> 'v) list"

datatype piece = Lit string | Num real

type_synonym fstring = "piece list"

text \<open>\<open>sep.join(parts)\<close> on formatted strings.\<close>

fun join :: "fstring \<Rightarrow> fstring list \<Rightarrow> fstring" where
  "join sep [] = []"
| "join sep [x] = x"
| "join sep (x # y # ys) = x @ sep @ join sep (y # ys)"

section \<open>Data model (app/models.py)\<close>

record EconomicIndicator =
  series_id :: string
  name :: string
  latest_value :: real
  previous_value :: real
  change_percent :: real
  date :: string
  trend :: string

text \<open>
  \<open>AgentInsight\<close> and \<open>AlertMessage\<close> both have a field \<open>timestamp\<close>; the alert's is
  \<open>alert_timestamp\<close> here.
\<close>

record AgentInsight =
  timestamp :: string
  economic_health :: string
  key_concerns :: "fstring list"
  opportunities :: "fstring list"
  confidence :: real
  summary :: fstring

record AlertMessage =
  severity :: string
  indicator :: string
  message :: fstring
  alert_timestamp :: string

section \<open>Scoring (app/agent.py)\<close>

text \<open>
  Each scoring method takes \<open>indicators.get(KEY)\<close>: \<open>None\<close> when the key is absent. A
  pydantic model object is always truthy, so \<open>if not unemployment\<close> is the test for
  \<open>None\<close>.
\<close>

definition score_employment :: "EconomicIndicator option \<Rightarrow> real option" where
  "score_employment unemployment =
     (case unemployment of
        None \<Rightarrow> None
      | Some u \<Rightarrow>
          (let rate = latest_value u in
           if rate \<le> 3.5 then Some 10.0
           else if rate \<le> 4.5 then Some 8.0
           else if rate \<le> 6.0 then Some 6.0
           else if rate \<le> 8.0 then Some 4.0
           else Some 2.0))"

definition score_inflation :: "EconomicIndicator option \<Rightarrow> real option" where
  "score_inflation cpi =
     (case cpi of
        None \<Rightarrow> None
      | Some c \<Rightarrow>
          (let change = \<bar>change_percent c\<bar> in
           if change \<le> 2.5 then Some 9.0
           else if change \<le> 4.0 then Some 7.0
           else if change \<le> 6.0 then Some 5.0
           else Some 3.0))"

definition score_growth :: "EconomicIndicator option \<Rightarrow> real option" where
  "score_growth gdp =
     (case gdp of
        None \<Rightarrow> None
      | Some g \<Rightarrow>
          (let change = change_percent g in
           if change \<ge> 3.0 then Some 9.0
           else if change \<ge> 2.0 then Some 7.0
           else if change \<ge> 1.0 then Some 6.0
           else if change \<ge> 0 then Some 4.0
           else Some 2.0))"

definition score_sentiment :: "EconomicIndicator option \<Rightarrow> real option" where
  "score_sentiment sentiment =
     (case sentiment of
        None \<Rightarrow> None
      | Some s \<Rightarrow>
          (let v = latest_value s in
           if v \<ge> 100 then Some 9.0
           else if v \<ge> 90 then Some 7.0
           else if v \<ge> 80 then Some 6.0
           else if v \<ge> 70 then Some 4.0
           else Some 3.0))"

definition score_monetary_policy :: "EconomicIndicator option \<Rightarrow> real option" where
  "score_monetary_policy fed_funds =
     (case fed_funds of
        None \<Rightarrow> None
      | Some f \<Rightarrow>
          (let rate = latest_value f; tr = trend f in
           if rate \<le> 2.0 \<and> tr = ''stable'' then Some 8.0
           else if rate \<le> 5.0 \<and> tr = ''up'' then Some 6.0
           else if rate > 5.0 then Some 4.0
           else Some 7.0))"

section \<open>Insight aggregation (app/agent.py)\<close>

text \<open>
  The local \<open>overall_score\<close> of \<open>analyze_economic_conditions\<close>: the five sub-scores,
  those that are \<open>None\<close> dropped, then \<open>np.mean\<close> of the rest, or 5.0 when the list is
  empty.
\<close>

definition overall_score :: "EconomicIndicator dict \<Rightarrow> real" where
  "overall_score indicators =
     (let employment_score = score_employment (map_of indicators ''UNEMPLOYMENT'');
          inflation_score = score_inflation (map_of indicators ''INFLATION'');
          growth_score = score_growth (map_of indicators ''GDP'');
          sentiment_score = score_sentiment (map_of indicators ''CONSUMER_SENTIMENT'');
          monetary_score = score_monetary_policy (map_of indicators ''FED_FUNDS'');
          scores = List.map_filter (\<lambda>score. score)
            [employment_score, inflation_score, growth_score, sentiment_score, monetary_score]
      in if scores \<noteq> [] then sum_list scores / real (length scores) else 5.0)"

definition identify_concerns :: "EconomicIndicator dict \<Rightarrow> fstring list" where
  "identify_concerns indicators =
     (let concerns = [];
          concerns =
            (case map_of indicators ''UNEMPLOYMENT'' of
               None \<Rightarrow> concerns
             | Some unemployment \<Rightarrow>
                 if latest_value unemployment > 6.0
                 then concerns @ [[Lit ''High unemployment at '',
                                   Num (latest_value unemployment), Lit ''%'']]
                 else if trend unemployment = ''up''
                 then concerns @ [[Lit ''Rising unemployment trend'']]
                 else concerns);
          concerns =
            (case map_of indicators ''INFLATION'' of
               None \<Rightarrow> concerns
             | Some inflation \<Rightarrow>
                 if \<bar>change_percent inflation\<bar> > 5.0
                 then concerns @ [[Lit ''High inflation volatility: '',
                                   Num (change_percent inflation), Lit ''%'']]
                 else concerns);
          concerns =
            (case map_of indicators ''GDP'' of
               None \<Rightarrow> concerns
             | Some gdp \<Rightarrow>
                 if change_percent gdp < 0
                 then concerns @ [[Lit ''Negative GDP growth'']]
                 else concerns);
          concerns =
            (case map_of indicators ''CONSUMER_SENTIMENT'' of
               None \<Rightarrow> concerns
             | Some sentiment \<Rightarrow>
                 if latest_value sentiment < 70
                 then concerns @ [[Lit ''Low consumer confidence'']]
                 else concerns);
          concerns =
            (case map_of indicators ''FED_FUNDS'' of
               None \<Rightarrow> concerns
             | Some fed_funds \<Rightarrow>
                 if latest_value fed_funds > 6.0
                 then concerns @ [[Lit ''High interest rates constraining growth'']]
                 else concerns)
      in concerns)"

definition identify_opportunities :: "EconomicIndicator dict \<Rightarrow> fstring list" where
  "identify_opportunities indicators =
     (let opps = [];
          opps =
            (case map_of indicators ''UNEMPLOYMENT'' of
               None \<Rightarrow> opps
             | Some unemployment \<Rightarrow>
                 if latest_value unemployment < 4.0
                 then opps @ [[Lit ''Strong labor market supports consumer spending'']]
                 else if trend unemployment = ''down''
                 then opps @ [[Lit ''Improving employment conditions'']]
                 else opps);
          opps =
            (case map_of indicators ''FED_FUNDS'' of
               None \<Rightarrow> opps
             | Some fed_funds \<Rightarrow>
                 if trend fed_funds = ''down''
                 then opps @ [[Lit ''Easing monetary policy supports growth'']]
                 else if latest_value fed_funds < 3.0
                 then opps @ [[Lit ''Low interest rates support investment'']]
                 else opps);
          opps =
            (case map_of indicators ''CONSUMER_SENTIMENT'' of
               None \<Rightarrow> opps
             | Some sentiment \<Rightarrow>
                 if trend sentiment = ''up''
                 then opps @ [[Lit ''Improving consumer confidence'']]
                 else if latest_value sentiment > 90
                 then opps @ [[Lit ''High consumer confidence drives spending'']]
                 else opps);
          opps =
            (case map_of indicators ''GDP'' of
               None \<Rightarrow> opps
             | Some gdp \<Rightarrow>
                 if change_percent gdp > 2.5
                 then opps @ [[Lit ''Strong economic growth momentum'']]
                 else opps);
          opps =
            (case map_of indicators ''INFLATION'' of
               None \<Rightarrow> opps
             | Some inflation \<Rightarrow>
                 if \<bar>change_percent inflation\<bar> < 2.0
                 then opps @ [[Lit ''Stable inflation supports economic planning'']]
                 else opps)
      in opps)"

definition generate_summary ::
  "string \<Rightarrow> EconomicIndicator dict \<Rightarrow> fstring list \<Rightarrow> fstring list \<Rightarrow> fstring" where
  "generate_summary health indicators concerns opps =
     (let summary_parts = [[Lit (''Economic health is currently '' @ health @ ''.'')]];
          summary_parts =
            (if concerns \<noteq> []
             then summary_parts @
               [[Lit ''Key concerns include: ''] @ join [Lit '', ''] (take 2 concerns) @ [Lit ''.'']]
             else summary_parts);
          summary_parts =
            (if opps \<noteq> []
             then summary_parts @
               [[Lit ''Opportunities: ''] @ join [Lit '', ''] (take 2 opps) @ [Lit ''.'']]
             else summary_parts);
          context_parts = [];
          context_parts =
            (case map_of indicators ''UNEMPLOYMENT'' of
               None \<Rightarrow> context_parts
             | Some i \<Rightarrow>
                 context_parts @ [[Lit ''unemployment at '', Num (latest_value i), Lit ''%'']]);
          context_parts =
            (case map_of indicators ''INFLATION'' of
               None \<Rightarrow> context_parts
             | Some i \<Rightarrow>
                 context_parts @ [[Lit ''inflation trend at '', Num (change_percent i), Lit ''%'']]);
          context_parts =
            (case map_of indicators ''FED_FUNDS'' of
               None \<Rightarrow> context_parts
             | Some i \<Rightarrow>
                 context_parts @ [[Lit ''fed funds rate at '', Num (latest_value i), Lit ''%'']]);
          summary_parts =
            (if context_parts \<noteq> []
             then summary_parts @
               [[Lit ''Current conditions: ''] @ join [Lit '', ''] context_parts @ [Lit ''.'']]
             else summary_parts)
      in join [Lit '' ''] summary_parts)"

text \<open>\<open>now\<close> is what \<open>datetime.now().isoformat()\<close> returns during the call.\<close>

definition analyze_economic_conditions :: "string \<Rightarrow> EconomicIndicator dict \<Rightarrow> AgentInsight" where
  "analyze_economic_conditions now indicators =
     (let score = overall_score indicators;
          health = (if score \<ge> 7 then ''strong''
                    else if score \<ge> 5 then ''moderate''
                    else ''weak'');
          concerns = identify_concerns indicators;
          opps = identify_opportunities indicators;
          summ = generate_summary health indicators concerns opps
      in \<lparr>timestamp = now,
          economic_health = health,
          key_concerns = concerns,
          opportunities = opps,
          confidence = min (score / 10) 1.0,
          summary = summ\<rparr>)"

section \<open>Alert engine (app/agent.py)\<close>

text \<open>
  One pass of the body of the loop \<open>for key, indicator in indicators.items()\<close> of
  \<open>check_alerts\<close>: the five \<open>if\<close> statements in the order of the source, each
  appending to \<open>alerts\<close>.
\<close>

definition check_alerts_body ::
  "string \<Rightarrow> string \<times> EconomicIndicator \<Rightarrow> AlertMessage list \<Rightarrow> AlertMessage list" where
  "check_alerts_body current_time item alerts =
     (let key = fst item; ind = snd item;
          alerts =
            (if \<bar>change_percent ind\<bar> > 10
             then alerts @
               [\<lparr>severity = (if \<bar>change_percent ind\<bar> > 20 then ''critical'' else ''warning''),
                 indicator = name ind,
                 message = [Lit (name ind @ '' changed by ''), Num (change_percent ind), Lit ''%''],
                 alert_timestamp = current_time\<rparr>]
             else alerts);
          alerts =
            (if key = ''UNEMPLOYMENT'' \<and> latest_value ind > 7.0
             then alerts @
               [\<lparr>severity = ''critical'',
                 indicator = name ind,
                 message = [Lit ''Unemployment rate high at '', Num (latest_value ind), Lit ''%''],
                 alert_timestamp = current_time\<rparr>]
             else alerts);
          alerts =
            (if key = ''INFLATION'' \<and> \<bar>change_percent ind\<bar> > 6.0
             then alerts @
               [\<lparr>severity = ''warning'',
                 indicator = name ind,
                 message = [Lit ''High inflation volatility: '', Num (change_percent ind), Lit ''%''],
                 alert_timestamp = current_time\<rparr>]
             else alerts);
          alerts =
            (if key = ''FED_FUNDS'' \<and> latest_value ind > 6.0
             then alerts @
               [\<lparr>severity = ''warning'',
                 indicator = name ind,
                 message = [Lit ''Federal funds rate elevated at '', Num (latest_value ind),
                            Lit ''%''],
                 alert_timestamp = current_time\<rparr>]
             else alerts);
          alerts =
            (if key = ''CONSUMER_SENTIMENT'' \<and> latest_value ind < 60
             then alerts @
               [\<lparr>severity = ''warning'',
                 indicator = name ind,
                 message = [Lit ''Consumer sentiment low at '', Num (latest_value ind)],
                 alert_timestamp = current_time\<rparr>]
             else alerts)
      in alerts)"

definition check_alerts :: "string \<Rightarrow> EconomicIndicator dict \<Rightarrow> AlertMessage list" where
  "check_alerts now indicators =
     (let alerts = []; current_time = now
      in fold (check_alerts_body current_time) indicators alerts)"

section \<open>Signal engine (app/agent.py)\<close>

definition get_trading_signals :: "EconomicIndicator dict \<Rightarrow> string dict" where
  "get_trading_signals indicators =
     (let signals = [];
          signals =
            (case map_of indicators ''FED_FUNDS'' of
               None \<Rightarrow> signals
             | Some fed_funds \<Rightarrow>
                 if trend fed_funds = ''up''
                 then AList.update ''bonds'' ''SELL - Rising rates hurt bond prices'' signals
                 else if trend fed_funds = ''down''
                 then AList.update ''bonds'' ''BUY - Falling rates support bond prices'' signals
                 else AList.update ''bonds'' ''HOLD - Stable rates'' signals);
          signals =
            (case (map_of indicators ''GDP'', map_of indicators ''UNEMPLOYMENT'') of
               (Some gdp, Some unemployment) \<Rightarrow>
                 if change_percent gdp > 2.0 \<and> latest_value unemployment < 5.0
                 then AList.update ''equities'' ''BUY - Strong growth and employment'' signals
                 else if change_percent gdp < 0 \<or> latest_value unemployment > 7.0
                 then AList.update ''equities'' ''SELL - Weak economic conditions'' signals
                 else AList.update ''equities'' ''HOLD - Mixed signals'' signals
             | _ \<Rightarrow> signals);
          signals =
            (case (map_of indicators ''FED_FUNDS'', map_of indicators ''GDP'') of
               (Some fed_funds, Some gdp) \<Rightarrow>
                 if trend fed_funds = ''up'' \<and> change_percent gdp > 1.5
                 then AList.update ''dollar'' ''BUY - Rising rates and growth support USD'' signals
                 else if trend fed_funds = ''down'' \<and> change_percent gdp < 1.0
                 then AList.update ''dollar'' ''SELL - Falling rates and weak growth'' signals
                 else AList.update ''dollar'' ''HOLD - Neutral conditions'' signals
             | _ \<Rightarrow> signals)
      in signals)"

section \<open>Fetching (app/data_fetcher.py, app/config.py)\<close>

text \<open>
  What the statistics provider answers to one request. \<open>RequestFailed\<close> stands for every
  exception raised by \<open>client.get\<close>, \<open>raise_for_status\<close> or \<open>response.json()\<close>.
  \<open>Payload None\<close> is a JSON body without the key \<open>"observations"\<close>, and
  \<open>Payload (Some obs)\<close> a body whose \<open>"observations"\<close> is the list \<open>obs\<close>; an observation is
  a JSON object whose fields are strings, as the provider sends them.
\<close>

datatype response = RequestFailed | Payload "string dict list option"

datatype exn = RequestError | KeyError string | ValueError string

text \<open>\<open>d[k]\<close>, which raises \<open>KeyError\<close> on a missing key.\<close>

definition getitem :: "'v dict \<Rightarrow> string \<Rightarrow> exn + 'v" where
  "getitem d k = (case map_of d k of None \<Rightarrow> Inl (KeyError k) | Some v \<Rightarrow> Inr v)"

text \<open>
  Python's \<open>float(s)\<close> on a string is a builtin, not code of the program: it is the
  argument \<open>float_of\<close> of the functions that call it, \<open>None\<close> where the builtin raises
  \<open>ValueError\<close>.
\<close>

definition py_float :: "(string \<Rightarrow> real option) \<Rightarrow> string \<Rightarrow> exn + real" where
  "py_float float_of s = (case float_of s of None \<Rightarrow> Inl (ValueError s) | Some x \<Rightarrow> Inr x)"

definition raising :: "exn + 'a \<Rightarrow> ('a \<Rightarrow> exn + 'b) \<Rightarrow> exn + 'b" where
  "raising m f = (case m of Inl e \<Rightarrow> Inl e | Inr x \<Rightarrow> f x)"

text \<open>
  Python's \<open>round(x)\<close> on a float goes to the nearest integer and, at a tie, to the even
  one; \<open>round(x, 2)\<close> does the same at the second decimal.
\<close>

definition py_round :: "real \<Rightarrow> int" where
  "py_round x =
     (let f = \<lfloor>x\<rfloor> in
      if x - of_int f < 1 / 2 then f
      else if x - of_int f > 1 / 2 then f + 1
      else if even f then f else f + 1)"

definition round_2 :: "real \<Rightarrow> real" where
  "round_2 x = of_int (py_round (x * 100)) / 100"

text \<open>
  The dict that \<open>fetch_latest_data\<close> returns has the keys of \<open>EconomicIndicator\<close> but
  \<open>name\<close>; its fields carry the prefix \<open>f_\<close>.
\<close>

record fetched =
  f_series_id :: string
  f_latest_value :: real
  f_previous_value :: real
  f_change_percent :: real
  f_date :: string
  f_trend :: string

text \<open>
  Two expressions of \<open>fetch_latest_data\<close>, named here: the right-hand side of the
  assignment to \<open>change_percent\<close> (before rounding), with its guard against a zero
  divisor, and the conditional expression stored under \<open>"trend"\<close>.
\<close>

definition percent_change :: "real \<Rightarrow> real \<Rightarrow> real" where
  "percent_change latest_val prev_val =
     (if prev_val \<noteq> 0 then (latest_val - prev_val) / prev_val * 100 else 0)"

definition trend_of :: "real \<Rightarrow> string" where
  "trend_of cp = (if cp > 0.1 then ''up'' else if cp < - 0.1 then ''down'' else ''stable'')"

text \<open>
  The body of the \<open>try\<close> block of \<open>fetch_latest_data\<close>: \<open>Inl\<close> is an exception raised
  inside it, \<open>Inr\<close> the value it returns. The trend is taken from the change before
  rounding, the stored change is rounded.
\<close>

definition fetch_try ::
  "(string \<Rightarrow> real option) \<Rightarrow> response \<Rightarrow> string \<Rightarrow> exn + fetched option" where
  "fetch_try float_of resp sid =
     (case resp of
        RequestFailed \<Rightarrow> Inl RequestError
      | Payload data \<Rightarrow>
          (case data of
             None \<Rightarrow> Inr None
           | Some observations \<Rightarrow>
               if length observations \<ge> 2 then
                 (let latest = observations ! 0; previous = observations ! 1 in
                  raising (getitem latest ''value'') (\<lambda>lv.
                  raising (if lv \<noteq> ''.'' then py_float float_of lv else Inr 0) (\<lambda>latest_val.
                  raising (getitem previous ''value'') (\<lambda>pv.
                  raising (if pv \<noteq> ''.'' then py_float float_of pv else Inr 0) (\<lambda>prev_val.
                  (let cp = percent_change latest_val prev_val in
                   raising (getitem latest ''date'') (\<lambda>d.
                   Inr (Some \<lparr>f_series_id = sid,
                              f_latest_value = latest_val,
                              f_previous_value = prev_val,
                              f_change_percent = round_2 cp,
                              f_date = d,
                              f_trend = trend_of cp\<rparr>))))))))
               else Inr None))"

text \<open>\<open>except Exception\<close>: every exception of the body becomes \<open>None\<close>.\<close>

definition fetch_latest_data ::
  "(string \<Rightarrow> real option) \<Rightarrow> response \<Rightarrow> string \<Rightarrow> fetched option" where
  "fetch_latest_data float_of resp sid =
     (case fetch_try float_of resp sid of Inl e \<Rightarrow> None | Inr r \<Rightarrow> r)"

record indicator_config =
  cfg_series_id :: string
  cfg_name :: string

definition CORE_INDICATORS :: "indicator_config dict" where
  "CORE_INDICATORS =
     [(''GDP'', \<lparr>cfg_series_id = ''GDP'', cfg_name = ''Gross Domestic Product''\<rparr>),
      (''UNEMPLOYMENT'', \<lparr>cfg_series_id = ''UNRATE'', cfg_name = ''Unemployment Rate''\<rparr>),
      (''INFLATION'', \<lparr>cfg_series_id = ''CPIAUCSL'', cfg_name = ''Consumer Price Index''\<rparr>),
      (''FED_FUNDS'', \<lparr>cfg_series_id = ''FEDFUNDS'', cfg_name = ''Federal Funds Rate''\<rparr>),
      (''CONSUMER_SENTIMENT'', \<lparr>cfg_series_id = ''UMCSENT'', cfg_name = ''Consumer Sentiment''\<rparr>)]"

text \<open>
  One pass of the loop of \<open>update_economic_data\<close>. \<open>provider\<close> gives the answer of the
  statistics provider to the request for each series during this cycle. The dict that
  \<open>fetch_latest_data\<close> returns is never empty, so \<open>if data\<close> is the test for \<open>None\<close>.
\<close>

definition update_body ::
  "(string \<Rightarrow> real option) \<Rightarrow> (string \<Rightarrow> response) \<Rightarrow> string \<times> indicator_config \<Rightarrow>
   EconomicIndicator dict \<Rightarrow> EconomicIndicator dict" where
  "update_body float_of provider item indicators =
     (let key = fst item; config = snd item in
      case fetch_latest_data float_of (provider (cfg_series_id config)) (cfg_series_id config) of
        None \<Rightarrow> indicators
      | Some data \<Rightarrow>
          AList.update key
            \<lparr>series_id = f_series_id data,
              name = cfg_name config,
              latest_value = f_latest_value data,
              previous_value = f_previous_value data,
              change_percent = f_change_percent data,
              date = f_date data,
              trend = f_trend data\<rparr> indicators)"

text \<open>
  The global \<open>economic_data_cache\<close> is the state: the function takes the cache as the
  cycle finds it and returns the cache as the cycle leaves it.
\<close>

definition update_economic_data ::
  "(string \<Rightarrow> real option) \<Rightarrow> (string \<Rightarrow> response) \<Rightarrow> EconomicIndicator dict \<Rightarrow>
   EconomicIndicator dict" where
  "update_economic_data float_of provider economic_data_cache =
     (let indicators = [];
          indicators = fold (update_body float_of provider) CORE_INDICATORS indicators
      in indicators)"

definition get_economic_data :: "EconomicIndicator dict \<Rightarrow> EconomicIndicator dict" where
  "get_economic_data economic_data_cache = economic_data_cache"

section \<open>Query surface (api/indicators.py)\<close>

text \<open>
  \<open>str.upper()\<close> on ASCII text: the letters a to z go to A to Z, every other character
  stays.
\<close>

definition upper_char :: "char \<Rightarrow> char" where
  "upper_char c =
     (let n = (of_char c :: nat) in if 97 \<le> n \<and> n \<le> 122 then char_of (n - 32) else c)"

definition upper :: "string \<Rightarrow> string" where
  "upper s = map upper_char s"

datatype http_error = HTTPException nat string

definition get_indicator :: "EconomicIndicator dict \<Rightarrow> string \<Rightarrow> http_error + EconomicIndicator" where
  "get_indicator economic_data_cache indicator_name =
     (let data = get_economic_data economic_data_cache;
          indicator_name = upper indicator_name
      in case map_of data indicator_name of
           None \<Rightarrow> Inl (HTTPException 404 (''Indicator '' @ indicator_name @ '' not found''))
         | Some i \<Rightarrow> Inr i)"

section \<open>Definitions that follow the specification's words\<close>

text \<open>
  The alert rules as the specification words them: for one indicator, the swing alert
  (present iff the change exceeds 10 percent in absolute value, critical iff it exceeds 20)
  and the threshold alert of its key; for a snapshot set, the two lists of every indicator
  in the order of the set, the swing alert first. The message texts are the program's.
\<close>

definition spec_swing_alerts :: "string \<Rightarrow> EconomicIndicator \<Rightarrow> AlertMessage list" where
  "spec_swing_alerts t ind =
     (if \<bar>change_percent ind\<bar> > 10
      then [\<lparr>severity = (if \<bar>change_percent ind\<bar> > 20 then ''critical'' else ''warning''),
             indicator = name ind,
             message = [Lit (name ind @ '' changed by ''), Num (change_percent ind), Lit ''%''],
             alert_timestamp = t\<rparr>]
      else [])"

definition spec_threshold_alerts ::
  "string \<Rightarrow> string \<Rightarrow> EconomicIndicator \<Rightarrow> AlertMessage list" where
  "spec_threshold_alerts t key ind =
     (if key = ''UNEMPLOYMENT'' \<and> latest_value ind > 7.0
      then [\<lparr>severity = ''critical'', indicator = name ind,
             message = [Lit ''Unemployment rate high at '', Num (latest_value ind), Lit ''%''],
             alert_timestamp = t\<rparr>]
      else if key = ''INFLATION'' \<and> \<bar>change_percent ind\<bar> > 6.0
      then [\<lparr>severity = ''warning'', indicator = name ind,
             message = [Lit ''High inflation volatility: '', Num (change_percent ind), Lit ''%''],
             alert_timestamp = t\<rparr>]
      else if key = ''FED_FUNDS'' \<and> latest_value ind > 6.0
      then [\<lparr>severity = ''warning'', indicator = name ind,
             message = [Lit ''Federal funds rate elevated at '', Num (latest_value ind), Lit ''%''],
             alert_timestamp = t\<rparr>]
      else if key = ''CONSUMER_SENTIMENT'' \<and> latest_value ind < 60
      then [\<lparr>severity = ''warning'', indicator = name ind,
             message = [Lit ''Consumer sentiment low at '', Num (latest_value ind)],
             alert_timestamp = t\<rparr>]
      else [])"

definition spec_check_alerts :: "string \<Rightarrow> EconomicIndicator dict \<Rightarrow> AlertMessage list" where
  "spec_check_alerts t indicators =
     concat (map (\<lambda>item. spec_swing_alerts t (snd item) @
                          spec_threshold_alerts t (fst item) (snd item)) indicators)"

text \<open>
  The lowercase spelling of a key, for the claim on the single-indicator query: A to Z go
  to a to z, every other character stays. The program has no such function.
\<close>

definition lower_char :: "char \<Rightarrow> char" where
  "lower_char c =
     (let n = (of_char c :: nat) in if 65 \<le> n \<and> n \<le> 90 then char_of (n + 32) else c)"

definition lower :: "string \<Rightarrow> string" where
  "lower s = map lower_char s"

section \<open>Sample inputs\<close>

text \<open>
  What \<open>float\<close> returns on the number strings of the examples below. The examples hold no
  other number string, and \<open>n/a\<close> is a string that \<open>float\<close> rejects.
\<close>

definition float_literals :: "string \<Rightarrow> real option" where
  "float_literals s =
     map_of [(''110'', 110), (''100'', 100), (''5'', 5), (''0'', 0), (''100.104'', 100.104),
             (''100.1'', 100.1)] s"

text \<open>An observation as the provider sends it, cut down to the two fields the program reads.\<close>

definition observation :: "string \<Rightarrow> string \<Rightarrow> string dict" where
  "observation d v = [(''date'', d), (''value'', v)]"

text \<open>A provider that answers for the GDP series only.\<close>

definition sample_provider :: "string \<Rightarrow> response" where
  "sample_provider sid =
     (if sid = ''GDP''
      then Payload (Some [observation ''2024-02-01'' ''110'', observation ''2024-01-01'' ''100''])
      else RequestFailed)"

definition gdp_up_25 :: EconomicIndicator where
  "gdp_up_25 =
     \<lparr>series_id = ''GDP'', name = ''Gross Domestic Product'', latest_value = 125,
      previous_value = 100, change_percent = 25, date = ''2024-01-01'', trend = ''up''\<rparr>"

definition unrate_8 :: EconomicIndicator where
  "unrate_8 =
     \<lparr>series_id = ''UNRATE'', name = ''Unemployment Rate'', latest_value = 8,
      previous_value = 6.4, change_percent = 25, date = ''2024-01-01'', trend = ''up''\<rparr>"

section \<open>Properties\<close>

subsection \<open>Scoring engine\<close>

text \<open>
  C7. The employment sub-score never rises with the unemployment rate: for two present
  indicators whose rates satisfy \<open>r1 \<le> r2\<close>, both scores exist and the score at \<open>r2\<close> is at
  most the score at \<open>r1\<close>. At the rates 3.5, 3.6 and 8.1 the scores are 10, 8 and 2.
\<close>

theorem score_employment_antimono:
  "(latest_value u1 \<le> latest_value u2 \<longrightarrow>
      (\<exists>s1 s2. score_employment (Some u1) = Some s1 \<and> score_employment (Some u2) = Some s2
         \<and> s2 \<le> s1))
   \<and> score_employment (Some (u\<lparr>latest_value := 3.5\<rparr>)) = Some 10
   \<and> score_employment (Some (u\<lparr>latest_value := 3.6\<rparr>)) = Some 8
   \<and> score_employment (Some (u\<lparr>latest_value := 8.1\<rparr>)) = Some 2"
  by (simp add: score_employment_def Let_def)

theorem score_employment_antimono_witness:
  "latest_value \<lparr>series_id = ''UNRATE'', name = ''Unemployment Rate'', latest_value = 4.4,
       previous_value = 4.4, change_percent = 0, date = ''2024-01-01'', trend = ''stable''\<rparr>
     \<le> latest_value \<lparr>series_id = ''UNRATE'', name = ''Unemployment Rate'', latest_value = 6.5,
       previous_value = 6.4, change_percent = 1.56, date = ''2024-02-01'', trend = ''up''\<rparr>
   \<and> score_employment (Some \<lparr>series_id = ''UNRATE'', name = ''Unemployment Rate'',
       latest_value = 4.4, previous_value = 4.4, change_percent = 0, date = ''2024-01-01'',
       trend = ''stable''\<rparr>) = Some 8
   \<and> score_employment (Some \<lparr>series_id = ''UNRATE'', name = ''Unemployment Rate'',
       latest_value = 6.5, previous_value = 6.4, change_percent = 1.56, date = ''2024-02-01'',
       trend = ''up''\<rparr>) = Some 4"
  using score_employment_antimono
    [of "\<lparr>series_id = ''UNRATE'', name = ''Unemployment Rate'', latest_value = 4.4,
         previous_value = 4.4, change_percent = 0, date = ''2024-01-01'', trend = ''stable''\<rparr>"
        "\<lparr>series_id = ''UNRATE'', name = ''Unemployment Rate'', latest_value = 6.5,
         previous_value = 6.4, change_percent = 1.56, date = ''2024-02-01'', trend = ''up''\<rparr>"]
  by (simp add: score_employment_def)

subsection \<open>Insight aggregation\<close>

text \<open>
  C6. For the empty snapshot set the overall score is the default 5.0, the health label
  is \<open>moderate\<close>, there are no concerns and no opportunities, and the confidence is 0.5.
\<close>

theorem empty_snapshot_insight:
  "overall_score [] = 5
   \<and> economic_health (analyze_economic_conditions now []) = ''moderate''
   \<and> key_concerns (analyze_economic_conditions now []) = []
   \<and> opportunities (analyze_economic_conditions now []) = []
   \<and> confidence (analyze_economic_conditions now []) = 0.5"
  by (simp add: analyze_economic_conditions_def overall_score_def identify_concerns_def
      identify_opportunities_def score_employment_def score_inflation_def score_growth_def
      score_sentiment_def score_monetary_policy_def Let_def)

subsection \<open>Alert engine\<close>

lemma check_alerts_body_spec:
  "check_alerts_body t item acc =
   acc @ spec_swing_alerts t (snd item) @ spec_threshold_alerts t (fst item) (snd item)"
  by (simp add: check_alerts_body_def spec_swing_alerts_def spec_threshold_alerts_def Let_def)

lemma fold_check_alerts_spec:
  "fold (check_alerts_body t) d acc = acc @ spec_check_alerts t d"
  by (induction d arbitrary: acc) (simp_all add: check_alerts_body_spec spec_check_alerts_def)

text \<open>
  C5. The alert list of a snapshot set is, indicator after indicator in the order of the
  set, the swing alert (iff the change exceeds 10 percent in absolute value, critical iff it
  exceeds 20, a warning otherwise) followed by the threshold alert of the key (unemployment
  above 7.0 critical, inflation change above 6.0 in absolute value, fed funds above 6.0 and
  consumer sentiment below 60 warnings). The two do not exclude each other: an unemployment
  rate of 8 that rose by 25 percent gives two alerts, a critical swing alert and then the
  critical threshold alert.
\<close>

theorem check_alerts_is_spec:
  "check_alerts now d = spec_check_alerts now d
   \<and> map severity (check_alerts now [(''UNEMPLOYMENT'', unrate_8)]) = [''critical'', ''critical'']
   \<and> map message (check_alerts now [(''UNEMPLOYMENT'', unrate_8)]) =
       [[Lit ''Unemployment Rate changed by '', Num 25, Lit ''%''],
        [Lit ''Unemployment rate high at '', Num 8, Lit ''%'']]"
proof -
  have "check_alerts now d = spec_check_alerts now d"
    using fold_check_alerts_spec [of now d "[]"] by (simp add: check_alerts_def)
  moreover have
    "map severity (check_alerts now [(''UNEMPLOYMENT'', unrate_8)]) = [''critical'', ''critical'']"
    by (simp add: check_alerts_def check_alerts_body_def unrate_8_def Let_def)
  moreover have
    "map message (check_alerts now [(''UNEMPLOYMENT'', unrate_8)]) =
       [[Lit ''Unemployment Rate changed by '', Num 25, Lit ''%''],
        [Lit ''Unemployment rate high at '', Num 8, Lit ''%'']]"
    by (simp add: check_alerts_def check_alerts_body_def unrate_8_def Let_def)
  ultimately show ?thesis by simp
qed

subsection \<open>Signal engine\<close>

text \<open>
  C8. The signal map has the key \<open>equities\<close> exactly when the snapshot set holds both the
  GDP and the UNEMPLOYMENT indicator; when either is absent the key is absent.
\<close>

theorem equities_iff_gdp_and_unemployment:
  "(map_of (get_trading_signals d) ''equities'' \<noteq> None) =
   (map_of d ''GDP'' \<noteq> None \<and> map_of d ''UNEMPLOYMENT'' \<noteq> None)"
  by (cases "map_of d ''FED_FUNDS''"; cases "map_of d ''GDP''"; cases "map_of d ''UNEMPLOYMENT''")
    (simp_all add: get_trading_signals_def Let_def update_conv)

subsection \<open>The clock\<close>

lemma check_alerts_body_clock:
  "check_alerts_body t1 item (map (\<lambda>a. a\<lparr>alert_timestamp := t1\<rparr>) acc) =
   map (\<lambda>a. a\<lparr>alert_timestamp := t1\<rparr>) (check_alerts_body t2 item acc)"
  by (simp add: check_alerts_body_def Let_def)

lemma fold_check_alerts_clock:
  "fold (check_alerts_body t1) d (map (\<lambda>a. a\<lparr>alert_timestamp := t1\<rparr>) acc) =
   map (\<lambda>a. a\<lparr>alert_timestamp := t1\<rparr>) (fold (check_alerts_body t2) d acc)"
  by (induction d arbitrary: acc) (simp_all add: check_alerts_body_clock [where ?t2.0 = t2])

text \<open>
  Two calls on the same snapshot set read the clock twice. One second apart, the two
  insights of the empty set differ, and so do the two alert lists of a set whose GDP rose
  by 25 percent: C1 as stated fails.
\<close>

theorem repeated_call_differs:
  "analyze_economic_conditions ''2024-03-01T09:00:00'' [] \<noteq>
     analyze_economic_conditions ''2024-03-01T09:00:01'' []
   \<and> check_alerts ''2024-03-01T09:00:00'' [(''GDP'', gdp_up_25)] \<noteq>
     check_alerts ''2024-03-01T09:00:01'' [(''GDP'', gdp_up_25)]"
  by (simp add: analyze_economic_conditions_def check_alerts_def check_alerts_body_def
      gdp_up_25_def Let_def)

text \<open>
  C1 (amended). Two calls on the same snapshot set give results that agree in every field
  but the timestamp, which is the clock reading of each call: the insight of one call is the
  insight of the other with its timestamp replaced, and the alert list of one call is the
  alert list of the other with the timestamp of every alert replaced. The signal map is a
  function of the snapshot set alone (\<open>get_trading_signals\<close> has no other argument).
\<close>

theorem results_agree_up_to_timestamp:
  "analyze_economic_conditions now1 d = (analyze_economic_conditions now2 d)\<lparr>timestamp := now1\<rparr>
   \<and> check_alerts now1 d = map (\<lambda>a. a\<lparr>alert_timestamp := now1\<rparr>) (check_alerts now2 d)"
proof
  show "analyze_economic_conditions now1 d =
        (analyze_economic_conditions now2 d)\<lparr>timestamp := now1\<rparr>"
    by (simp add: analyze_economic_conditions_def Let_def)
  show "check_alerts now1 d = map (\<lambda>a. a\<lparr>alert_timestamp := now1\<rparr>) (check_alerts now2 d)"
    using fold_check_alerts_clock [of now1 d "[]" now2]
    by (simp add: check_alerts_def)
qed

subsection \<open>Refresh cycle\<close>

lemma fetch_failed: "fetch_latest_data float_of RequestFailed sid = None"
  by (simp add: fetch_latest_data_def fetch_try_def)

lemma update_body_failed:
  "fetch_latest_data float_of (provider (cfg_series_id (snd item))) (cfg_series_id (snd item)) = None
   \<Longrightarrow> update_body float_of provider item acc = acc"
  by (simp add: update_body_def Let_def)

lemma fold_update_body_failed:
  "\<forall>item \<in> set cfgs.
      fetch_latest_data float_of (provider (cfg_series_id (snd item))) (cfg_series_id (snd item))
        = None
   \<Longrightarrow> fold (update_body float_of provider) cfgs acc = acc"
  by (induction cfgs arbitrary: acc) (simp_all add: update_body_failed)

text \<open>
  A cycle in which every request fails, starting from a cache that holds the GDP indicator,
  does not leave that cache in place: C2 as stated fails.
\<close>

theorem failed_cycle_drops_cache:
  "update_economic_data float_literals (\<lambda>sid. RequestFailed) [(''GDP'', gdp_up_25)] \<noteq>
   [(''GDP'', gdp_up_25)]"
  by (simp add: update_economic_data_def CORE_INDICATORS_def update_body_def fetch_failed)

text \<open>
  C2 (amended). A refresh cycle in which the fetch of every configured indicator returns
  absent replaces the stored snapshot set by the empty set, whatever the set was before.
\<close>

theorem failed_cycle_empties_cache:
  "\<forall>item \<in> set CORE_INDICATORS.
      fetch_latest_data float_of (provider (cfg_series_id (snd item))) (cfg_series_id (snd item))
        = None
   \<Longrightarrow> update_economic_data float_of provider cache = []"
  using fold_update_body_failed [of CORE_INDICATORS float_of provider "[]"]
  by (simp add: update_economic_data_def)

theorem failed_cycle_empties_cache_witness:
  "fetch_latest_data float_literals RequestFailed ''GDP'' = None
   \<and> fetch_latest_data float_literals RequestFailed ''UNRATE'' = None
   \<and> fetch_latest_data float_literals RequestFailed ''CPIAUCSL'' = None
   \<and> fetch_latest_data float_literals RequestFailed ''FEDFUNDS'' = None
   \<and> fetch_latest_data float_literals RequestFailed ''UMCSENT'' = None
   \<and> update_economic_data float_literals (\<lambda>sid. RequestFailed) [(''GDP'', gdp_up_25)] = []"
  using failed_cycle_empties_cache [of float_literals "\<lambda>sid. RequestFailed" "[(''GDP'', gdp_up_25)]"]
  by (simp add: fetch_failed)

subsection \<open>Fetching: change percent and trend\<close>

lemma fetch_two_observations:
  assumes "map_of o1 ''value'' = Some lv" and "map_of o2 ''value'' = Some pv"
    and "map_of o1 ''date'' = Some d"
    and "(if lv \<noteq> ''.'' then float_of lv else Some 0) = Some latest"
    and "(if pv \<noteq> ''.'' then float_of pv else Some 0) = Some previous"
  shows "fetch_latest_data float_of (Payload (Some (o1 # o2 # rest))) sid =
    Some \<lparr>f_series_id = sid, f_latest_value = latest, f_previous_value = previous,
          f_change_percent = round_2 (percent_change latest previous),
          f_date = d,
          f_trend = trend_of (percent_change latest previous)\<rparr>"
  using assms
  by (auto simp add: fetch_latest_data_def fetch_try_def raising_def getitem_def py_float_def
      Let_def split: if_splits)


lemma round_2_zero: "round_2 0 = 0"
  by (simp add: round_2_def py_round_def)











subsection \<open>Fetching: absence and the missing-data marker\<close>

lemma fetch_None_iff:
  "(fetch_latest_data float_of resp sid = None) =
     ((\<exists>e. fetch_try float_of resp sid = Inl e) \<or> resp = Payload None
       \<or> (\<exists>obs. resp = Payload (Some obs) \<and> length obs < 2))"
  by (auto simp add: fetch_latest_data_def fetch_try_def raising_def getitem_def py_float_def
      Let_def split: if_splits response.splits option.splits sum.splits)

text \<open>
  C9. The fetch returns absent exactly when the body of its \<open>try\<close> block raises or the
  payload holds fewer than two observations (none, when it has no list of observations);
  with two observations or more and no exception it returns a populated record. The marker
  \<open>.\<close> is not a failure: as the previous value it is read as 0, which gives change percent
  0 and trend \<open>stable\<close>; as the latest value it gives latest value 0.
\<close>

theorem fetch_absent_only_on_exception_or_short:
  "(fetch_latest_data float_of resp sid = None) =
     ((\<exists>e. fetch_try float_of resp sid = Inl e) \<or> resp = Payload None
       \<or> (\<exists>obs. resp = Payload (Some obs) \<and> length obs < 2))
   \<and> (map_of o1 ''date'' = Some d \<and> map_of o1 ''value'' = Some lv
       \<and> (lv = ''.'' \<or> float_of lv \<noteq> None) \<and> map_of o2 ''value'' = Some ''.'' \<longrightarrow>
       (\<exists>r. fetch_latest_data float_of (Payload (Some (o1 # o2 # rest))) sid = Some r
          \<and> f_previous_value r = 0 \<and> f_change_percent r = 0 \<and> f_trend r = ''stable''))
   \<and> (map_of o1 ''date'' = Some d \<and> map_of o1 ''value'' = Some ''.''
       \<and> map_of o2 ''value'' = Some pv \<and> (pv = ''.'' \<or> float_of pv \<noteq> None) \<longrightarrow>
       (\<exists>r. fetch_latest_data float_of (Payload (Some (o1 # o2 # rest))) sid = Some r
          \<and> f_latest_value r = 0))"
proof (intro conjI impI)
  show "(fetch_latest_data float_of resp sid = None) =
     ((\<exists>e. fetch_try float_of resp sid = Inl e) \<or> resp = Payload None
       \<or> (\<exists>obs. resp = Payload (Some obs) \<and> length obs < 2))"
    by (rule fetch_None_iff)
next
  assume a: "map_of o1 ''date'' = Some d \<and> map_of o1 ''value'' = Some lv
       \<and> (lv = ''.'' \<or> float_of lv \<noteq> None) \<and> map_of o2 ''value'' = Some ''.''"
  then have "\<exists>latest. (if lv \<noteq> ''.'' then float_of lv else Some 0) = Some latest"
    by (cases "lv = ''.''") auto
  then obtain latest where l: "(if lv \<noteq> ''.'' then float_of lv else Some 0) = Some latest"
    by blast
  have "fetch_latest_data float_of (Payload (Some (o1 # o2 # rest))) sid =
    Some \<lparr>f_series_id = sid, f_latest_value = latest, f_previous_value = 0,
          f_change_percent = round_2 (percent_change latest 0),
          f_date = d,
          f_trend = trend_of (percent_change latest 0)\<rparr>"
    by (rule fetch_two_observations [where pv = "''.''" and lv = lv]) (use a l in auto)
  then show "\<exists>r. fetch_latest_data float_of (Payload (Some (o1 # o2 # rest))) sid = Some r
          \<and> f_previous_value r = 0 \<and> f_change_percent r = 0 \<and> f_trend r = ''stable''"
    by (simp add: percent_change_def trend_of_def round_2_zero)
next
  assume a: "map_of o1 ''date'' = Some d \<and> map_of o1 ''value'' = Some ''.''
       \<and> map_of o2 ''value'' = Some pv \<and> (pv = ''.'' \<or> float_of pv \<noteq> None)"
  then have "\<exists>previous. (if pv \<noteq> ''.'' then float_of pv else Some 0) = Some previous"
    by (cases "pv = ''.''") auto
  then obtain previous where p: "(if pv \<noteq> ''.'' then float_of pv else Some 0) = Some previous"
    by blast
  have "fetch_latest_data float_of (Payload (Some (o1 # o2 # rest))) sid =
    Some \<lparr>f_series_id = sid, f_latest_value = 0, f_previous_value = previous,
          f_change_percent = round_2 (percent_change 0 previous),
          f_date = d,
          f_trend = trend_of (percent_change 0 previous)\<rparr>"
    by (rule fetch_two_observations [where lv = "''.''" and pv = pv]) (use a p in auto)
  then show "\<exists>r. fetch_latest_data float_of (Payload (Some (o1 # o2 # rest))) sid = Some r
          \<and> f_latest_value r = 0"
    by simp
qed

theorem fetch_absent_only_on_exception_or_short_witness:
  "(\<exists>r. fetch_latest_data float_literals
      (Payload (Some [observation ''2024-02-01'' ''110'', observation ''2024-01-01'' ''.''])) ''GDP''
      = Some r \<and> f_previous_value r = 0 \<and> f_change_percent r = 0 \<and> f_trend r = ''stable'')
   \<and> (\<exists>r. fetch_latest_data float_literals
      (Payload (Some [observation ''2024-02-01'' ''.'', observation ''2024-01-01'' ''100''])) ''GDP''
      = Some r \<and> f_latest_value r = 0)
   \<and> fetch_latest_data float_literals
      (Payload (Some [observation ''2024-02-01'' ''110''])) ''GDP'' = None
   \<and> fetch_latest_data float_literals
      (Payload (Some [observation ''2024-02-01'' ''n/a'', observation ''2024-01-01'' ''100'']))
      ''GDP'' = None
   \<and> fetch_try float_literals
      (Payload (Some [observation ''2024-02-01'' ''n/a'', observation ''2024-01-01'' ''100'']))
      ''GDP'' = Inl (ValueError ''n/a'')"
  using fetch_absent_only_on_exception_or_short [of float_literals
      "Payload (Some [observation ''2024-02-01'' ''110''])" "''GDP''"
      "observation ''2024-02-01'' ''110''" "''2024-02-01''" "''110''"
      "observation ''2024-01-01'' ''.''" "[]" "''110''"]
    fetch_absent_only_on_exception_or_short [of float_literals
      "Payload (Some [observation ''2024-02-01'' ''n/a'', observation ''2024-01-01'' ''100''])"
      "''GDP''"
      "observation ''2024-02-01'' ''.''" "''2024-02-01''" "''.''"
      "observation ''2024-01-01'' ''100''" "[]" "''100''"]
  by (simp add: observation_def float_literals_def fetch_try_def raising_def getitem_def
      py_float_def)

subsection \<open>Single-indicator query\<close>

lemma update_body_keys:
  "fst ` set (update_body float_of provider item acc) \<subseteq> insert (fst item) (fst ` set acc)"
  by (auto simp add: update_body_def Let_def dom_update split: option.splits)

lemma fold_update_body_keys:
  "fst ` set (fold (update_body float_of provider) cfgs acc) \<subseteq> fst ` set cfgs \<union> fst ` set acc"
proof (induction cfgs arbitrary: acc)
  case Nil
  then show ?case by simp
next
  case (Cons item cfgs)
  have "fst ` set (fold (update_body float_of provider) cfgs (update_body float_of provider item acc))
      \<subseteq> fst ` set cfgs \<union> fst ` set (update_body float_of provider item acc)"
    by (rule Cons.IH)
  moreover note update_body_keys [of float_of provider item acc]
  ultimately have "fst ` set (fold (update_body float_of provider) cfgs
        (update_body float_of provider item acc))
      \<subseteq> fst ` set cfgs \<union> insert (fst item) (fst ` set acc)"
    by blast
  then show ?case by simp
qed

text \<open>The keys of the cache after a refresh cycle are keys of \<open>CORE_INDICATORS\<close>.\<close>

lemma update_economic_data_keys:
  "fst ` set (update_economic_data float_of provider cache) \<subseteq> fst ` set CORE_INDICATORS"
  using fold_update_body_keys [of float_of provider CORE_INDICATORS "[]"]
  by (simp add: update_economic_data_def)

lemma core_keys_upper:
  assumes "K \<in> fst ` set CORE_INDICATORS"
  shows "upper K = K"
proof -
  from assms have "K = ''GDP'' \<or> K = ''UNEMPLOYMENT'' \<or> K = ''INFLATION'' \<or> K = ''FED_FUNDS''
      \<or> K = ''CONSUMER_SENTIMENT''"
    by (simp add: CORE_INDICATORS_def)
  moreover have "upper ''GDP'' = ''GDP''" by code_simp
  moreover have "upper ''UNEMPLOYMENT'' = ''UNEMPLOYMENT''" by code_simp
  moreover have "upper ''INFLATION'' = ''INFLATION''" by code_simp
  moreover have "upper ''FED_FUNDS'' = ''FED_FUNDS''" by code_simp
  moreover have "upper ''CONSUMER_SENTIMENT'' = ''CONSUMER_SENTIMENT''" by code_simp
  ultimately show ?thesis by auto
qed

lemma upper_lower_char: "upper_char (lower_char c) = upper_char c"
proof (cases "65 \<le> (of_char c :: nat) \<and> (of_char c :: nat) \<le> 90")
  case True
  then have "(of_char (char_of ((of_char c :: nat) + 32)) :: nat) = of_char c + 32"
    by simp
  with True show ?thesis
    by (simp add: upper_char_def lower_char_def Let_def)
next
  case False
  then show ?thesis by (auto simp add: lower_char_def Let_def)
qed

lemma upper_lower: "upper (lower s) = upper s"
  by (simp add: upper_def lower_def upper_lower_char)

lemma get_indicator_lookup:
  "get_indicator data k =
     (case map_of data (upper k) of
        Some v \<Rightarrow> Inr v
      | None \<Rightarrow> Inl (HTTPException 404 (''Indicator '' @ upper k @ '' not found'')))"
  by (simp add: get_indicator_def get_economic_data_def Let_def split: option.splits)

lemma sample_cache:
  "update_economic_data float_literals sample_provider [] =
     [(''GDP'', \<lparr>series_id = ''GDP'', name = ''Gross Domestic Product'', latest_value = 110,
        previous_value = 100, change_percent = 10, date = ''2024-02-01'', trend = ''up''\<rparr>)]"
  by (simp add: update_economic_data_def CORE_INDICATORS_def update_body_def sample_provider_def
      fetch_latest_data_def fetch_try_def raising_def getitem_def py_float_def
      float_literals_def observation_def percent_change_def trend_of_def round_2_def
      py_round_def Let_def)

lemma sample_spellings:
  "upper ''gdp'' = ''GDP'' \<and> upper ''GDP'' = ''GDP'' \<and> lower ''GDP'' = ''gdp''
   \<and> upper ''unemployment'' = ''UNEMPLOYMENT''"
  by code_simp

text \<open>
  C10. The single-indicator query looks the requested name up in upper case: for every
  cache and every name \<open>k\<close> it returns the snapshot stored under \<open>upper k\<close> when there is
  one, and the not-found error (status 404) otherwise. The cache is what a refresh cycle
  stored, whose keys are the configured upper-case keys; so for a key \<open>K\<close> present in it,
  every spelling \<open>k'\<close> that agrees with \<open>K\<close> up to case, the lowercase spelling among them,
  returns the snapshot of \<open>K\<close> and never not-found.
\<close>

theorem get_indicator_case_insensitive:
  "get_indicator data k =
     (case map_of data (upper k) of
        Some v \<Rightarrow> Inr v
      | None \<Rightarrow> Inl (HTTPException 404 (''Indicator '' @ upper k @ '' not found'')))
   \<and> (map_of (update_economic_data float_of provider old) K = Some v \<and> upper k' = upper K \<longrightarrow>
        get_indicator (update_economic_data float_of provider old) k' = Inr v)
   \<and> (map_of (update_economic_data float_of provider old) K = Some v \<longrightarrow>
        get_indicator (update_economic_data float_of provider old) (lower K) = Inr v)"
proof -
  have found: "get_indicator (update_economic_data float_of provider old) k'' = Inr v"
    if a: "map_of (update_economic_data float_of provider old) K = Some v"
      and b: "upper k'' = upper K" for k''
  proof -
    from a have "(K, v) \<in> set (update_economic_data float_of provider old)"
      by (rule map_of_SomeD)
    then have "K \<in> fst ` set (update_economic_data float_of provider old)"
      by force
    with update_economic_data_keys [of float_of provider old]
    have "K \<in> fst ` set CORE_INDICATORS"
      by blast
    then have "upper K = K"
      by (rule core_keys_upper)
    with a b show ?thesis
      by (simp add: get_indicator_lookup)
  qed
  show ?thesis
    using found [of k'] found [of "lower K"]
    by (simp add: get_indicator_lookup upper_lower)
qed

theorem get_indicator_case_insensitive_witness:
  "get_indicator (update_economic_data float_literals sample_provider []) ''gdp'' =
     Inr \<lparr>series_id = ''GDP'', name = ''Gross Domestic Product'', latest_value = 110,
        previous_value = 100, change_percent = 10, date = ''2024-02-01'', trend = ''up''\<rparr>
   \<and> get_indicator (update_economic_data float_literals sample_provider []) ''unemployment'' =
     Inl (HTTPException 404 ''Indicator UNEMPLOYMENT not found'')"
  using get_indicator_case_insensitive
     [of "update_economic_data float_literals sample_provider []" "''unemployment''"
      float_literals sample_provider "[]" "''GDP''"
      "\<lparr>series_id = ''GDP'', name = ''Gross Domestic Product'', latest_value = 110,
        previous_value = 100, change_percent = 10, date = ''2024-02-01'', trend = ''up''\<rparr>"
      "''gdp''"]
  by (simp add: sample_cache sample_spellings)

end
